theory Spec2Isabelle
  imports Main
begin

section \<open>Strings and Python built-ins used by the analyzer\<close>

text \<open>
  A Python \<open>str\<close> is modelled as a list of characters. Isabelle's \<open>char\<close> has 256
  values; they are read as the code points U+0000 to U+00FF, and the character classes
  below are the ones Python 3 assigns to these code points.
\<close>

definition code :: "char \<Rightarrow> nat" where
  "code c = of_char c"

text \<open>Whitespace: \<open>str.isspace\<close>, the class \<open>\s\<close> of \<open>re\<close>, what \<open>split\<close> and \<open>strip\<close> cut at.\<close>

definition is_space :: "char \<Rightarrow> bool" where
  "is_space c = (let n = code c in (9 \<le> n \<and> n \<le> 13) \<or> (28 \<le> n \<and> n \<le> 32) \<or> n = 133 \<or> n = 160)"

text \<open>The class \<open>[a-z]\<close>.\<close>

definition is_az :: "char \<Rightarrow> bool" where
  "is_az c = (let n = code c in 97 \<le> n \<and> n \<le> 122)"

text \<open>
  Word characters, the class \<open>\w\<close> of \<open>re\<close> on a \<open>str\<close> pattern: the underscore and
  every alphanumeric character (letters, decimal digits, and the superscript digits and
  fractions that \<open>str.isnumeric\<close> accepts).
\<close>

definition is_word :: "char \<Rightarrow> bool" where
  "is_word c = (let n = code c in
     (48 \<le> n \<and> n \<le> 57) \<or> (65 \<le> n \<and> n \<le> 90) \<or> n = 95 \<or> (97 \<le> n \<and> n \<le> 122)
     \<or> n = 170 \<or> n = 178 \<or> n = 179 \<or> n = 181 \<or> n = 185 \<or> n = 186
     \<or> (188 \<le> n \<and> n \<le> 190) \<or> (192 \<le> n \<and> n \<le> 214) \<or> (216 \<le> n \<and> n \<le> 246)
     \<or> (248 \<le> n \<and> n \<le> 255))"

text \<open>\<open>str.lower\<close>: A to Z, and the accented capitals U+00C0 to U+00DE except U+00D7.\<close>

definition lower_char :: "char \<Rightarrow> char" where
  "lower_char c = (let n = code c in
     if (65 \<le> n \<and> n \<le> 90) \<or> (192 \<le> n \<and> n \<le> 214) \<or> (216 \<le> n \<and> n \<le> 222)
     then char_of (n + 32) else c)"

definition lower :: "string \<Rightarrow> string" where
  "lower s = map lower_char s"

text \<open>\<open>s.split()\<close>: the maximal runs of non-whitespace characters.\<close>

function split_ws :: "string \<Rightarrow> string list" where
  "split_ws [] = []"
| "split_ws (c # cs) =
     (if is_space c then split_ws cs
      else takeWhile (\<lambda>x. \<not> is_space x) (c # cs) # split_ws (dropWhile (\<lambda>x. \<not> is_space x) cs))"
  by pat_completeness auto
termination
  by (relation "measure length") (auto simp: less_Suc_eq_le length_dropWhile_le)

text \<open>\<open>s.strip()\<close>.\<close>

definition strip :: "string \<Rightarrow> string" where
  "strip s = rev (dropWhile is_space (rev (dropWhile is_space s)))"

text \<open>\<open>str(n)\<close> for a non-negative integer: its decimal digits.\<close>

definition digit_char :: "nat \<Rightarrow> char" where
  "digit_char d = ''0123456789'' ! d"

fun str_nat :: "nat \<Rightarrow> string" where
  "str_nat n = (if n < 10 then [digit_char n] else str_nat (n div 10) @ [digit_char (n mod 10)])"

declare str_nat.simps [simp del]

text \<open>\<open>sep.join(xs)\<close>.\<close>

fun join :: "string \<Rightarrow> string list \<Rightarrow> string" where
  "join sep [] = []"
| "join sep [x] = x"
| "join sep (x # y # ys) = x @ sep @ join sep (y # ys)"

text \<open>\<open>a in b\<close> on strings: \<open>a\<close> occurs in \<open>b\<close> as a contiguous substring.\<close>

fun starts_with :: "string \<Rightarrow> string \<Rightarrow> bool" where
  "starts_with [] s = True"
| "starts_with (a # as) [] = False"
| "starts_with (a # as) (c # cs) = (a = c \<and> starts_with as cs)"

fun str_in :: "string \<Rightarrow> string \<Rightarrow> bool" where
  "str_in a [] = (a = [])"
| "str_in a (c # cs) = (starts_with a (c # cs) \<or> str_in a cs)"

text \<open>Truth value of an optional string: \<open>None\<close> and the empty string are false.\<close>

fun truthy :: "string option \<Rightarrow> bool" where
  "truthy None = False"
| "truthy (Some s) = (s \<noteq> [])"

section \<open>The regular expressions of \<open>extract_keywords\<close>\<close>

text \<open>
  A greedy quantifier over a character class, \<open>X{lo,}\<close>: the engine first takes the
  longest run (\<open>k\<close> characters), tries the rest of the pattern there (\<open>ok k\<close>), and
  backtracks one character at a time down to \<open>lo\<close> repetitions.
\<close>

fun backtrack :: "nat \<Rightarrow> nat \<Rightarrow> (nat \<Rightarrow> bool) \<Rightarrow> nat option" where
  "backtrack lo 0 ok = (if lo = 0 \<and> ok 0 then Some 0 else None)"
| "backtrack lo (Suc k) ok =
     (if Suc k < lo then None else if ok (Suc k) then Some (Suc k) else backtrack lo k ok)"

text \<open>
  \<open><[^>]+>\<close> tried where the text is \<open>c # cs\<close>: the number of characters of \<open>cs\<close> the
  match takes, if there is a match.
\<close>

definition match_tag :: "char \<Rightarrow> string \<Rightarrow> nat option" where
  "match_tag c cs =
     (if c = CHR ''<''
      then map_option Suc
             (backtrack 1 (length (takeWhile (\<lambda>x. x \<noteq> CHR ''>'') cs))
                (\<lambda>k. case drop k cs of [] \<Rightarrow> False | x # _ \<Rightarrow> x = CHR ''>''))
      else None)"

text \<open>\<open>re.sub(r'<[^>]+>', ' ', text)\<close>: every match, left to right, becomes one space.\<close>

function sub_tags :: "string \<Rightarrow> string" where
  "sub_tags [] = []"
| "sub_tags (c # cs) =
     (case match_tag c cs of
        Some k \<Rightarrow> CHR '' '' # sub_tags (drop k cs)
      | None \<Rightarrow> c # sub_tags cs)"
  by pat_completeness auto
termination
  by (relation "measure length") auto

text \<open>
  \<open>re.sub(r'\s+', ' ', text)\<close>: nothing follows \<open>\s+\<close> in the pattern, so each match is a
  maximal run of whitespace.
\<close>

function sub_spaces :: "string \<Rightarrow> string" where
  "sub_spaces [] = []"
| "sub_spaces (c # cs) =
     (if is_space c then CHR '' '' # sub_spaces (dropWhile is_space cs) else c # sub_spaces cs)"
  by pat_completeness auto
termination
  by (relation "measure length") (auto simp: less_Suc_eq_le length_dropWhile_le)

text \<open>
  \<open>\b\<close>: the position is a word boundary when exactly one of the character before it
  and the character after it is a word character; the two ends of the text count as
  non-word characters.
\<close>

definition at_boundary :: "char option \<Rightarrow> string \<Rightarrow> bool" where
  "at_boundary prev s =
     ((case prev of None \<Rightarrow> False | Some p \<Rightarrow> is_word p)
        \<noteq> (case s of [] \<Rightarrow> False | x # _ \<Rightarrow> is_word x))"

text \<open>
  \<open>\b[a-z]{min_length,}\b\<close> tried where the text is \<open>c # cs\<close> and the character before
  is \<open>prev\<close>: the number of characters of \<open>cs\<close> the match takes, if there is a match.
  This is for \<open>min_length\<close> of at least 1, as in every call the program makes; with 0
  the pattern also matches the empty string, which is not modelled.
\<close>

definition match_word :: "nat \<Rightarrow> char option \<Rightarrow> char \<Rightarrow> string \<Rightarrow> nat option" where
  "match_word min_length prev c cs =
     (if at_boundary prev (c # cs)
      then case backtrack min_length (length (takeWhile is_az (c # cs)))
                  (\<lambda>k. at_boundary (Some (last (take k (c # cs)))) (drop k (c # cs))) of
             None \<Rightarrow> None
           | Some 0 \<Rightarrow> None
           | Some (Suc k) \<Rightarrow> Some k
      else None)"

text \<open>\<open>re.findall\<close> with that pattern: the matches, left to right, without overlap.\<close>

function findall_words :: "nat \<Rightarrow> char option \<Rightarrow> string \<Rightarrow> string list" where
  "findall_words min_length prev [] = []"
| "findall_words min_length prev (c # cs) =
     (case match_word min_length prev c cs of
        Some k \<Rightarrow> (c # take k cs)
                   # findall_words min_length (Some (last (c # take k cs))) (drop k cs)
      | None \<Rightarrow> findall_words min_length (Some c) cs)"
  by pat_completeness auto
termination
  by (relation "measure (\<lambda>(m, p, s). length s)") auto

section \<open>Keyword extraction\<close>

definition stop_words :: "string set" where
  "stop_words = set [
     ''the'', ''a'', ''an'', ''and'', ''or'', ''but'', ''in'', ''on'', ''at'', ''to'', ''for'',
     ''of'', ''with'', ''by'', ''is'', ''are'', ''was'', ''were'', ''be'', ''been'', ''have'',
     ''has'', ''had'', ''do'', ''does'', ''did'', ''will'', ''would'', ''should'', ''could'',
     ''can'', ''may'', ''might'', ''this'', ''that'', ''these'', ''those'', ''i'', ''you'',
     ''he'', ''she'', ''it'', ''we'', ''they'', ''me'', ''him'', ''her'', ''us'', ''them'',
     ''get'', ''go'', ''come'', ''see'', ''know'', ''think'', ''want'', ''need'', ''use'',
     ''work'', ''call'', ''try'', ''ask'', ''feel'', ''become'', ''leave'', ''put'']"

text \<open>
  \<open>Counter(words)\<close>: a dictionary in insertion order, here an association list; each word
  adds one to its entry, a new word is appended.
\<close>

fun counter_add :: "string \<Rightarrow> (string \<times> nat) list \<Rightarrow> (string \<times> nat) list" where
  "counter_add w [] = [(w, 1)]"
| "counter_add w ((k, n) # kvs) =
     (if k = w then (k, Suc n) # kvs else (k, n) # counter_add w kvs)"

definition Counter :: "string list \<Rightarrow> (string \<times> nat) list" where
  "Counter words = foldl (\<lambda>m w. counter_add w m) [] words"

text \<open>
  \<open>most_common(n)\<close>: the first \<open>n\<close> entries of the items sorted by count, largest first;
  the sort is stable, so entries with equal counts stay in insertion order.
\<close>

definition most_common :: "nat \<Rightarrow> (string \<times> nat) list \<Rightarrow> (string \<times> nat) list" where
  "most_common n items = take n (sort_key (\<lambda>(w, c). - int c) items)"

definition extract_keywords_with :: "nat \<Rightarrow> nat \<Rightarrow> string \<Rightarrow> (string \<times> nat) list" where
  "extract_keywords_with min_length max_keywords text =
     (let text = sub_tags text;
          text = sub_spaces (lower text);
          words = findall_words min_length None text;
          words = filter (\<lambda>word. word \<notin> stop_words) words
      in most_common max_keywords (Counter words))"

text \<open>The call with the default arguments, the only one the program makes.\<close>

definition extract_keywords :: "string \<Rightarrow> (string \<times> nat) list" where
  "extract_keywords text = extract_keywords_with 3 50 text"

section \<open>The ranker as the specification describes it\<close>










section \<open>Data model\<close>

text \<open>One entry of \<open>page_data['images']\<close>.\<close>

record image =
  src :: string
  alt :: string
  has_alt :: bool

text \<open>The dictionary \<open>page_data['headings']\<close>, with its three fixed keys.\<close>

record headings =
  h1 :: "string list"
  h2 :: "string list"
  h3 :: "string list"

text \<open>The dictionary returned by \<open>analyze_page\<close>.\<close>

record page_data =
  url :: string
  title :: "string option"
  title_length :: nat
  meta_description :: "string option"
  meta_desc_length :: nat
  meta_keywords :: "string option"
  headings :: headings
  images :: "image list"
  images_without_alt :: nat
  total_images :: nat
  keywords_of :: "(string \<times> nat) list"
  word_count :: nat
  has_structured_data :: bool
  structured_data_count :: nat

text \<open>The dictionary returned by \<open>generate_report\<close>.\<close>

record report =
  score :: int
  issues :: "string list"
  recommendations :: "string list"

section \<open>Issue and recommendation engine\<close>

definition it_keywords :: "string list" where
  "it_keywords = [''computer'', ''repair'', ''support'', ''network'', ''security'',
     ''managed'', ''services'', ''business'', ''wichita'']"

text \<open>The issue messages, each an f-string of the source.\<close>

definition title_too_short :: "nat \<Rightarrow> string" where
  "title_too_short n = ''Title too short ('' @ str_nat n @ '' chars). Aim for 30-60 characters''"

definition title_too_long :: "nat \<Rightarrow> string" where
  "title_too_long n = ''Title too long ('' @ str_nat n @ '' chars). Aim for 30-60 characters''"

definition meta_too_short :: "nat \<Rightarrow> string" where
  "meta_too_short n =
     ''Meta description too short ('' @ str_nat n @ '' chars). Aim for 120-160 characters''"

definition meta_too_long :: "nat \<Rightarrow> string" where
  "meta_too_long n =
     ''Meta description too long ('' @ str_nat n @ '' chars). Aim for 120-160 characters''"

definition multiple_h1 :: "nat \<Rightarrow> string" where
  "multiple_h1 n = ''Multiple H1 tags ('' @ str_nat n @ ''). Use only one H1 per page''"

definition missing_alt :: "nat \<Rightarrow> string" where
  "missing_alt n = str_nat n @ '' images missing alt text''"

definition low_word_count :: "nat \<Rightarrow> string" where
  "low_word_count n = ''Low word count ('' @ str_nat n @ ''). Aim for at least 300 words''"

text \<open>The five checks of \<open>generate_seo_issues\<close>, in the order of the source.\<close>

definition title_issues :: "page_data \<Rightarrow> string list" where
  "title_issues page_data =
     (if \<not> truthy (title page_data) then [''Missing title tag'']
      else if title_length page_data < 30 then [title_too_short (title_length page_data)]
      else if title_length page_data > 60 then [title_too_long (title_length page_data)]
      else [])"

definition meta_issues :: "page_data \<Rightarrow> string list" where
  "meta_issues page_data =
     (if \<not> truthy (meta_description page_data) then [''Missing meta description'']
      else if meta_desc_length page_data < 120 then [meta_too_short (meta_desc_length page_data)]
      else if meta_desc_length page_data > 160 then [meta_too_long (meta_desc_length page_data)]
      else [])"

definition heading_issues :: "page_data \<Rightarrow> string list" where
  "heading_issues page_data =
     (if h1 (headings page_data) = [] then [''Missing H1 tag'']
      else if length (h1 (headings page_data)) > 1
        then [multiple_h1 (length (h1 (headings page_data)))]
      else [])"

definition image_issues :: "page_data \<Rightarrow> string list" where
  "image_issues page_data =
     (if images_without_alt page_data > 0 then [missing_alt (images_without_alt page_data)]
      else [])"

definition content_issues :: "page_data \<Rightarrow> string list" where
  "content_issues page_data =
     (if word_count page_data < 300 then [low_word_count (word_count page_data)] else [])"

definition structured_data_recommendations :: "page_data \<Rightarrow> string list" where
  "structured_data_recommendations page_data =
     (if \<not> has_structured_data page_data
      then [''Add structured data (JSON-LD) for better search visibility''] else [])"

definition keyword_recommendations :: "page_data \<Rightarrow> string list" where
  "keyword_recommendations page_data =
     (let found_keywords = map fst (take 10 (keywords_of page_data));
          missing_it_keywords =
            filter (\<lambda>kw. \<not> str_in kw (join '' '' found_keywords)) it_keywords
      in if missing_it_keywords \<noteq> []
         then [''Consider adding IT-related keywords: '' @ join '', '' (take 5 missing_it_keywords)]
         else [])"

definition generate_seo_issues :: "page_data \<Rightarrow> string list \<times> string list" where
  "generate_seo_issues page_data =
     (title_issues page_data @ meta_issues page_data @ heading_issues page_data
        @ image_issues page_data @ content_issues page_data,
      structured_data_recommendations page_data @ keyword_recommendations page_data)"

section \<open>The parsed document\<close>

text \<open>
  The program reads the page through BeautifulSoup. A parsed document is modelled by the
  answers it gives to the queries \<open>analyze_page\<close> makes. An element that \<open>find\<close> does
  not find is \<open>None\<close>; an attribute the element does not carry is \<open>None\<close>.
\<close>

record img_tag =
  src_attr :: "string option"
  alt_attr :: "string option"

record soup =
  find_title :: "string option"
    \<comment> \<open>\<open>soup.find('title')\<close>, as the \<open>get_text()\<close> of the element found\<close>
  find_meta_description :: "string option option"
    \<comment> \<open>\<open>soup.find('meta', attrs={'name': 'description'})\<close>, as its \<open>content\<close> attribute\<close>
  find_meta_keywords :: "string option option"
    \<comment> \<open>\<open>soup.find('meta', attrs={'name': 'keywords'})\<close>, as its \<open>content\<close> attribute\<close>
  find_all_h1 :: "string list"
  find_all_h2 :: "string list"
  find_all_h3 :: "string list"
    \<comment> \<open>\<open>soup.find_all('h1')\<close> and so on, as the \<open>get_text()\<close> of each element\<close>
  find_all_img :: "img_tag list"
  script_types :: "string option list"
    \<comment> \<open>the \<open>type\<close> attribute of each \<open>script\<close> element in the tree\<close>
  text_outside_script_style :: string
    \<comment> \<open>the text of the document that is not inside a \<open>script\<close> or \<open>style\<close> element\<close>

text \<open>
  The loop \<open>for script in soup(["script", "style"]): script.decompose()\<close> removes every
  \<open>script\<close> and \<open>style\<close> element from the tree; the queries made after it see the
  tree without them.
\<close>

definition decompose_script_style :: "soup \<Rightarrow> soup" where
  "decompose_script_style soup = soup\<lparr>script_types := []\<rparr>"

definition get_text :: "soup \<Rightarrow> string" where
  "get_text soup = text_outside_script_style soup"

definition find_all_script :: "string \<Rightarrow> soup \<Rightarrow> string option list" where
  "find_all_script type soup = filter (\<lambda>t. t = Some type) (script_types soup)"

text \<open>\<open>tag.get(name, '')\<close>.\<close>

fun get_or_empty :: "string option \<Rightarrow> string" where
  "get_or_empty None = []"
| "get_or_empty (Some v) = v"

section \<open>Fetching\<close>

text \<open>
  What \<open>requests.get\<close> does for a URL: it raises a \<open>RequestException\<close> (connection
  error, timeout, invalid URL, too many redirects), here with the text of the exception,
  or it returns a response.
\<close>

record response =
  status_code :: nat
  reason :: string
  response_url :: string
  response_text :: string

datatype get_result = Raised string | Responded response

text \<open>
  \<open>response.raise_for_status()\<close> raises an \<open>HTTPError\<close> for a status from 400 to 599
  and returns otherwise; the result is the text of the exception raised, if any.
\<close>

definition raise_for_status :: "response \<Rightarrow> string option" where
  "raise_for_status r =
     (if 400 \<le> status_code r \<and> status_code r < 500
      then Some (str_nat (status_code r) @ '' Client Error: '' @ reason r
                  @ '' for url: '' @ response_url r)
      else if 500 \<le> status_code r \<and> status_code r < 600
      then Some (str_nat (status_code r) @ '' Server Error: '' @ reason r
                  @ '' for url: '' @ response_url r)
      else None)"

text \<open>
  \<open>fetch_page\<close>: the lines it prints and the value it returns (\<open>None\<close> for Python's
  \<open>None\<close>).
\<close>

definition fetch_page :: "string \<Rightarrow> get_result \<Rightarrow> string list \<times> string option" where
  "fetch_page page_url res =
     (case res of
        Raised e \<Rightarrow> ([''Error fetching '' @ page_url @ '': '' @ e], None)
      | Responded r \<Rightarrow>
          (case raise_for_status r of
             Some e \<Rightarrow> ([''Error fetching '' @ page_url @ '': '' @ e], None)
           | None \<Rightarrow> ([], Some (response_text r))))"

section \<open>Extraction\<close>

datatype py_error = TypeError | ValueError

text \<open>
  The part of \<open>analyze_page\<close> after the document is parsed. The dictionary is built
  entry by entry; \<open>len(meta_desc.get('content'))\<close> raises \<open>TypeError\<close> when the
  description tag is there without a \<open>content\<close> attribute. The search for the JSON-LD
  scripts comes after the \<open>script\<close> elements are removed from the tree.
\<close>

definition analyze_soup :: "string \<Rightarrow> soup \<Rightarrow> py_error + page_data" where
  "analyze_soup page_url soup =
     (let title_tag = find_title soup;
          meta_desc = find_meta_description soup;
          meta_keywords_tag = find_meta_keywords soup;
          hs = \<lparr>h1 = map strip (find_all_h1 soup),
                h2 = map strip (find_all_h2 soup),
                h3 = map strip (find_all_h3 soup)\<rparr>;
          imgs = map (\<lambda>img. \<lparr>src = get_or_empty (src_attr img),
                               alt = get_or_empty (alt_attr img),
                               has_alt = truthy (alt_attr img)\<rparr>) (find_all_img soup);
          soup = decompose_script_style soup;
          text_content = get_text soup;
          kws = extract_keywords text_content;
          structured_data = find_all_script ''application/ld+json'' soup
      in case meta_desc of
           Some None \<Rightarrow> Inl TypeError
         | _ \<Rightarrow> Inr
             \<lparr>url = page_url,
              title = title_tag,
              title_length = (case title_tag of Some t \<Rightarrow> length t | None \<Rightarrow> 0),
              meta_description = (case meta_desc of Some c \<Rightarrow> c | None \<Rightarrow> None),
              meta_desc_length = (case meta_desc of Some (Some c) \<Rightarrow> length c | _ \<Rightarrow> 0),
              meta_keywords = (case meta_keywords_tag of Some c \<Rightarrow> c | None \<Rightarrow> None),
              headings = hs,
              images = imgs,
              images_without_alt = length (filter (\<lambda>img. \<not> has_alt img) imgs),
              total_images = length imgs,
              keywords_of = kws,
              word_count = length (split_ws text_content),
              has_structured_data = (length structured_data > 0),
              structured_data_count = length structured_data\<rparr>)"

text \<open>
  The environment of a run: the command line, the interpreter's version string, whether
  \<open>urlparse\<close> rejects a URL with \<open>ValueError\<close>, what \<open>requests.get\<close> does for a URL,
  and what \<open>BeautifulSoup(html, 'html.parser')\<close> makes of a markup.
\<close>

record env =
  argv :: "string list"
  sys_version :: string
  urlparse_raises :: "string \<Rightarrow> bool"
  requests_get :: "string \<Rightarrow> get_result"
  BeautifulSoup :: "string \<Rightarrow> soup"

text \<open>
  \<open>analyze_page\<close>: the lines printed, and the dictionary, \<open>None\<close> or the exception.
  \<open>if not html\<close> is taken for \<open>None\<close> and for an empty body.
\<close>

definition analyze_page :: "env \<Rightarrow> string \<Rightarrow> string list \<times> (py_error + page_data option)" where
  "analyze_page e page_url =
     (let (out, html) = fetch_page page_url (requests_get e page_url)
      in case html of
           None \<Rightarrow> (out, Inr None)
         | Some markup \<Rightarrow>
             if markup = [] then (out, Inr None)
             else (out, map_sum id Some (analyze_soup page_url (BeautifulSoup e markup))))"

section \<open>The report\<close>

text \<open>The score: 100, minus 10 for each issue, not below 0.\<close>

definition seo_score :: "nat \<Rightarrow> int" where
  "seo_score n_issues = (let s = 100; s = s - int n_issues * 10 in max 0 s)"

text \<open>Formatting: \<open>str\<close> of an optional string and of a truth value, \<open>{i:2d}\<close>.\<close>

fun str_opt :: "string option \<Rightarrow> string" where
  "str_opt None = ''None''"
| "str_opt (Some s) = s"

definition str_bool :: "bool \<Rightarrow> string" where
  "str_bool b = (if b then ''True'' else ''False'')"

definition fmt_2d :: "nat \<Rightarrow> string" where
  "fmt_2d i = (if i < 10 then '' '' @ str_nat i else str_nat i)"

text \<open>\<open>for i, x in enumerate(xs, 1): print(f"{i:2d}. ...")\<close>.\<close>

definition numbered :: "('a \<Rightarrow> string) \<Rightarrow> 'a list \<Rightarrow> string list" where
  "numbered f xs = map (\<lambda>(i, x). fmt_2d (Suc i) @ ''. '' @ f x) (enumerate 0 xs)"

definition ruler :: string where
  "ruler = replicate 70 CHR ''=''"

definition heading_lines :: "string \<Rightarrow> string list \<Rightarrow> string list" where
  "heading_lines level hs =
     (level @ '': '' @ str_nat (length hs) @ '' tags'')
       # map (\<lambda>heading. ''  - '' @ take 60 heading @ ''...'') (take 3 hs)"

text \<open>
  What \<open>generate_report\<close> prints, one entry for each call of \<open>print\<close>; a \<open>\n\<close> inside
  an entry is the character 10.
\<close>

definition report_lines :: "page_data \<Rightarrow> string list \<Rightarrow> string list \<Rightarrow> int \<Rightarrow> string list" where
  "report_lines page_data iss recs sc =
     [ruler, ''SEO ANALYSIS REPORT FOR: '' @ url page_data, ruler,
      CHR 0x0A # ''BASIC INFO:'',
      ''Title: '' @ str_opt (title page_data),
      ''Title Length: '' @ str_nat (title_length page_data) @ '' characters'',
      ''Meta Description: '' @ str_opt (meta_description page_data),
      ''Meta Description Length: '' @ str_nat (meta_desc_length page_data) @ '' characters'',
      ''Word Count: '' @ str_nat (word_count page_data),
      CHR 0x0A # ''HEADINGS:'']
     @ heading_lines ''H1'' (h1 (headings page_data))
     @ heading_lines ''H2'' (h2 (headings page_data))
     @ heading_lines ''H3'' (h3 (headings page_data))
     @ [CHR 0x0A # ''IMAGES:'',
        ''Total Images: '' @ str_nat (total_images page_data),
        ''Images Without Alt Text: '' @ str_nat (images_without_alt page_data),
        CHR 0x0A # ''TOP 10 KEYWORDS:'']
     @ numbered (\<lambda>(keyword, count). keyword @ '' ('' @ str_nat count @ '' times)'')
         (take 10 (keywords_of page_data))
     @ [CHR 0x0A # ''STRUCTURED DATA:'',
        ''Has Structured Data: '' @ str_bool (has_structured_data page_data),
        ''Structured Data Blocks: '' @ str_nat (structured_data_count page_data)]
     @ (if iss \<noteq> [] then (CHR 0x0A # ''ISSUES TO FIX:'') # numbered id iss else [])
     @ (if recs \<noteq> [] then (CHR 0x0A # ''RECOMMENDations:'') # numbered id recs else [])
     @ [CHR 0x0A # ''SEO SCORE: '' @ str_nat (nat sc) @ ''/100'', ruler]"

text \<open>\<open>generate_report\<close>: the lines printed and the dictionary returned.\<close>

definition generate_report :: "page_data \<Rightarrow> string list \<times> report" where
  "generate_report page_data =
     (let (iss, recs) = generate_seo_issues page_data;
          sc = seo_score (length iss)
      in (report_lines page_data iss recs sc,
          \<lparr>score = sc, issues = iss, recommendations = recs\<rparr>))"

section \<open>The output artifact\<close>

text \<open>The Python values that reach \<open>json.dump\<close>, and JSON documents.\<close>

datatype pyval =
    PNone
  | PBool bool
  | PInt int
  | PStr string
  | PList "pyval list"
  | PTuple "pyval list"
  | PDict "(string \<times> pyval) list"

datatype json =
    JNull
  | JBool bool
  | JNum int
  | JStr string
  | JArr "json list"
  | JObj "(string \<times> json) list"

text \<open>
  \<open>json.dump\<close> writes a list and a tuple as an array; \<open>json.load\<close> reads an array as a
  list. The file is modelled by the document it holds, not by its characters.
\<close>

primrec dump :: "pyval \<Rightarrow> json" where
  "dump PNone = JNull"
| "dump (PBool b) = JBool b"
| "dump (PInt i) = JNum i"
| "dump (PStr s) = JStr s"
| "dump (PList xs) = JArr (map dump xs)"
| "dump (PTuple xs) = JArr (map dump xs)"
| "dump (PDict kvs) = JObj (map (map_prod id dump) kvs)"

primrec load :: "json \<Rightarrow> pyval" where
  "load JNull = PNone"
| "load (JBool b) = PBool b"
| "load (JNum i) = PInt i"
| "load (JStr s) = PStr s"
| "load (JArr xs) = PList (map load xs)"
| "load (JObj kvs) = PDict (map (map_prod id load) kvs)"

text \<open>The dictionaries of the program as Python values.\<close>

fun py_opt :: "string option \<Rightarrow> pyval" where
  "py_opt None = PNone"
| "py_opt (Some s) = PStr s"

definition py_strs :: "string list \<Rightarrow> pyval" where
  "py_strs xs = PList (map PStr xs)"

definition py_image :: "image \<Rightarrow> pyval" where
  "py_image img =
     PDict [(''src'', PStr (src img)), (''alt'', PStr (alt img)), (''has_alt'', PBool (has_alt img))]"

definition py_keyword :: "string \<times> nat \<Rightarrow> pyval" where
  "py_keyword kw = PTuple [PStr (fst kw), PInt (int (snd kw))]"

definition py_page_data :: "page_data \<Rightarrow> pyval" where
  "py_page_data page_data = PDict
     [(''url'', PStr (url page_data)),
      (''title'', py_opt (title page_data)),
      (''title_length'', PInt (int (title_length page_data))),
      (''meta_description'', py_opt (meta_description page_data)),
      (''meta_desc_length'', PInt (int (meta_desc_length page_data))),
      (''meta_keywords'', py_opt (meta_keywords page_data)),
      (''headings'', PDict
         [(''h1'', py_strs (h1 (headings page_data))),
          (''h2'', py_strs (h2 (headings page_data))),
          (''h3'', py_strs (h3 (headings page_data)))]),
      (''images'', PList (map py_image (images page_data))),
      (''images_without_alt'', PInt (int (images_without_alt page_data))),
      (''total_images'', PInt (int (total_images page_data))),
      (''keywords'', PList (map py_keyword (keywords_of page_data))),
      (''word_count'', PInt (int (word_count page_data))),
      (''has_structured_data'', PBool (has_structured_data page_data)),
      (''structured_data_count'', PInt (int (structured_data_count page_data)))]"

definition py_report :: "report \<Rightarrow> pyval" where
  "py_report r = PDict
     [(''score'', PInt (score r)),
      (''issues'', py_strs (issues r)),
      (''recommendations'', py_strs (recommendations r))]"

definition artifact :: "string \<Rightarrow> page_data \<Rightarrow> report \<Rightarrow> pyval" where
  "artifact version page_data r = PDict
     [(''analysis_date'', PStr version),
      (''page_data'', py_page_data page_data),
      (''report'', py_report r)]"


text \<open>A keyword entry as a two-element list, which is how \<open>json.load\<close> returns it.\<close>

definition listed_keyword :: "string \<times> nat \<Rightarrow> pyval" where
  "listed_keyword kw = PList [PStr (fst kw), PInt (int (snd kw))]"

section \<open>The program\<close>

text \<open>
  The state a run changes: the lines printed so far and the files, each held as the
  document written to it. Every write is taken to succeed.
\<close>

record world =
  stdout :: "string list"
  files :: "string \<rightharpoonup> json"

definition print :: "string list \<Rightarrow> world \<Rightarrow> world" where
  "print ls w = w\<lparr>stdout := stdout w @ ls\<rparr>"

definition write_file :: "string \<Rightarrow> json \<Rightarrow> world \<Rightarrow> world" where
  "write_file name doc w = w\<lparr>files := (files w)(name \<mapsto> doc)\<rparr>"

text \<open>How a run ends: \<open>sys.exit(1)\<close>, an uncaught exception, or the end of \<open>main\<close>.\<close>

datatype outcome = Exit nat | Uncaught py_error | Returned

definition main :: "env \<Rightarrow> world \<Rightarrow> outcome \<times> world" where
  "main e w =
     (if length (argv e) \<noteq> 2
      then (Exit 1, print [''Usage: python3 seo_analyzer.py <website_url>'',
              ''Example: python3 seo_analyzer.py https://wichitacomputersolutions.com''] w)
      else let page_url = argv e ! 1
        in if urlparse_raises e page_url then (Uncaught ValueError, w)
           else let w = print [''Analyzing website: '' @ page_url, ''Please wait...''] w;
                    (out, res) = analyze_page e page_url;
                    w = print out w
             in case res of
                  Inl err \<Rightarrow> (Uncaught err, w)
                | Inr None \<Rightarrow>
                    (Returned,
                     print [''Failed to analyze the website. Check the URL and try again.''] w)
                | Inr (Some page_data) \<Rightarrow>
                    let (out, r) = generate_report page_data;
                        w = print out w;
                        w = write_file ''seo_analysis.json''
                              (dump (artifact (sys_version e) page_data r)) w;
                        w = print [CHR 0x0A # ''Detailed results saved to: seo_analysis.json''] w
                    in (Returned, w))"

text \<open>
  The issues the program reports for a parsed page: the extraction of \<open>analyze_page\<close>
  followed by \<open>generate_seo_issues\<close>, as \<open>main\<close> runs them.
\<close>

definition soup_issues :: "string \<Rightarrow> soup \<Rightarrow> py_error + string list" where
  "soup_issues page_url soup =
     (case analyze_soup page_url soup of
        Inl err \<Rightarrow> Inl err
      | Inr page_data \<Rightarrow> Inr (fst (generate_seo_issues page_data)))"

section \<open>Example inputs\<close>

definition example_page :: page_data where
  "example_page =
     \<lparr>url = ''https://example.com'', title = Some ''Home | IT Support Wichita'',
      title_length = 25, meta_description = None, meta_desc_length = 0, meta_keywords = None,
      headings = \<lparr>h1 = [''Welcome''], h2 = [], h3 = []\<rparr>,
      images = [\<lparr>src = ''a.png'', alt = ''logo'', has_alt = True\<rparr>,
                \<lparr>src = ''b.png'', alt = [], has_alt = False\<rparr>],
      images_without_alt = 1, total_images = 2, keywords_of = [(''support'', 2)],
      word_count = 250, has_structured_data = False, structured_data_count = 0\<rparr>"

definition example_soup :: soup where
  "example_soup =
     \<lparr>find_title = Some ''Home | IT Support Wichita'',
      find_meta_description = None,
      find_meta_keywords = None,
      find_all_h1 = ['' Welcome ''], find_all_h2 = [], find_all_h3 = [],
      find_all_img = [\<lparr>src_attr = Some ''a.png'', alt_attr = Some ''logo''\<rparr>,
                      \<lparr>src_attr = Some ''b.png'', alt_attr = None\<rparr>],
      script_types = [],
      text_outside_script_style = concat (replicate 250 ''wwww '')\<rparr>"

definition small_soup :: soup where
  "small_soup =
     \<lparr>find_title = Some ''Wichita Computer Solutions | Managed IT Support'',
      find_meta_description = Some (Some ''Computer repair in Wichita''),
      find_meta_keywords = None,
      find_all_h1 = [''Welcome''], find_all_h2 = [], find_all_h3 = [],
      find_all_img = [\<lparr>src_attr = Some ''a.png'', alt_attr = Some ''logo''\<rparr>,
                      \<lparr>src_attr = Some ''b.png'', alt_attr = Some []\<rparr>,
                      \<lparr>src_attr = None, alt_attr = None\<rparr>],
      script_types = [Some ''application/ld+json''],
      text_outside_script_style = ''IT support''\<rparr>"

definition empty_title_soup :: soup where
  "empty_title_soup =
     small_soup\<lparr>find_title := Some [], find_meta_description := Some (Some [])\<rparr>"


definition example_env :: env where
  "example_env =
     \<lparr>argv = [''seo_analyzer.py'', ''https://example.com''],
      sys_version = ''3.11.4 (main, Jun  7 2023, 10:13:09) [GCC 12.2.0]'',
      urlparse_raises = (\<lambda>u. False),
      requests_get = (\<lambda>u. Responded
         \<lparr>status_code = 200, reason = ''OK'', response_url = ''https://example.com/'',
          response_text = ''<html><head><title>Wichita</title></head></html>''\<rparr>),
      BeautifulSoup = (\<lambda>markup. small_soup)\<rparr>"

definition timeout_env :: env where
  "timeout_env = example_env\<lparr>requests_get := (\<lambda>u. Raised ''Read timed out.'')\<rparr>"

definition not_found_env :: env where
  "not_found_env = example_env\<lparr>requests_get := (\<lambda>u. Responded
     \<lparr>status_code = 404, reason = ''Not Found'', response_url = ''https://example.com/'',
      response_text = ''<html>not here</html>''\<rparr>)\<rparr>"

definition multiple_choices_env :: env where
  "multiple_choices_env = example_env\<lparr>requests_get := (\<lambda>u. Responded
     \<lparr>status_code = 300, reason = ''Multiple Choices'',
      response_url = ''https://example.com/'',
      response_text = ''<html><a href=a.html>a</a></html>''\<rparr>)\<rparr>"

definition empty_world :: world where
  "empty_world = \<lparr>stdout = [], files = Map.empty\<rparr>"

section \<open>Properties of the report\<close>

lemma generate_report_issues:
  "issues (snd (generate_report page_data)) = fst (generate_seo_issues page_data)"
  by (simp add: generate_report_def Let_def split: prod.splits)

lemma generate_report_score:
  "score (snd (generate_report page_data))
     = seo_score (length (fst (generate_seo_issues page_data)))"
  by (simp add: generate_report_def Let_def split: prod.splits)

lemma length_issues_le_5: "length (fst (generate_seo_issues page_data)) \<le> 5"
  by (simp add: generate_seo_issues_def title_issues_def meta_issues_def heading_issues_def
      image_issues_def content_issues_def)

lemma example_page_issues: "length (fst (generate_seo_issues example_page)) = 4"
  by (simp add: generate_seo_issues_def title_issues_def meta_issues_def heading_issues_def
      image_issues_def content_issues_def example_page_def)

text \<open>
  C2: for every page analysis the score of the report is \<open>max(0, 100 - 10 * n)\<close> for the
  number \<open>n\<close> of issues reported; it lies between 0 and 100; as a function of the
  number of issues the score never increases, and it is 0 from 10 issues on.
\<close>

theorem report_score_formula:
  "score (snd (generate_report page_data))
     = max 0 (100 - 10 * int (length (issues (snd (generate_report page_data)))))
   \<and> 0 \<le> score (snd (generate_report page_data))
   \<and> score (snd (generate_report page_data)) \<le> 100
   \<and> seo_score k = max 0 (100 - 10 * int k)
   \<and> (k \<le> k' \<longrightarrow> seo_score k' \<le> seo_score k)
   \<and> (10 \<le> k \<longrightarrow> seo_score k = 0)"
  by (auto simp add: generate_report_score generate_report_issues seo_score_def)

theorem report_score_formula_witness:
  "score (snd (generate_report example_page)) = 60
   \<and> seo_score 3 = 70 \<and> (3::nat) \<le> 12 \<and> seo_score 12 \<le> seo_score 3
   \<and> (10::nat) \<le> 12 \<and> seo_score 12 = 0"
  using report_score_formula [of example_page 3 12] report_score_formula [of example_page 12 12]
  by (simp add: generate_report_issues example_page_issues)

text \<open>
  C9: for every page analysis the issue list has at most 5 entries, so the score is at
  least 50 and equals \<open>100 - 10 * n\<close>: the floor at 0 is never what decides it.
\<close>

theorem issues_at_most_five:
  "length (issues (snd (generate_report page_data))) \<le> 5
   \<and> 50 \<le> score (snd (generate_report page_data))
   \<and> score (snd (generate_report page_data))
       = 100 - 10 * int (length (issues (snd (generate_report page_data))))"
  using length_issues_le_5 [of page_data]
  by (simp add: generate_report_score generate_report_issues seo_score_def)

theorem issues_at_most_five_witness:
  "length (issues (snd (generate_report example_page))) = 4
   \<and> score (snd (generate_report example_page)) = 60"
  using issues_at_most_five [of example_page]
  by (simp add: generate_report_issues example_page_issues)

section \<open>Properties of the extraction and the issue engine\<close>

lemma str_nat_digit: "\<exists>d ds. str_nat n = d # ds \<and> d \<in> set ''0123456789''"
proof (induction n rule: str_nat.induct)
  case (1 n)
  show ?case
  proof (cases "n < 10")
    case True
    then have "digit_char n \<in> set ''0123456789''"
      unfolding digit_char_def by (intro nth_mem) simp
    with True show ?thesis by (subst str_nat.simps) simp
  next
    case False
    with 1 obtain d ds where "str_nat (n div 10) = d # ds" "d \<in> set ''0123456789''"
      by blast
    with False show ?thesis by (subst str_nat.simps) simp
  qed
qed

lemma missing_alt_distinct:
  "missing_alt m \<noteq> title_too_short n" "missing_alt m \<noteq> title_too_long n"
  "missing_alt m \<noteq> meta_too_short n" "missing_alt m \<noteq> meta_too_long n"
  using str_nat_digit [of m]
  by (auto simp: missing_alt_def title_too_short_def title_too_long_def meta_too_short_def
      meta_too_long_def)

lemma title_msg_distinct:
  "title_too_short n \<noteq> ''Missing meta description''"
  "title_too_short n \<noteq> meta_too_short k" "title_too_short n \<noteq> meta_too_long k"
  "title_too_short n \<noteq> ''Missing H1 tag''" "title_too_short n \<noteq> multiple_h1 k"
  "title_too_short n \<noteq> low_word_count k"
  "title_too_long n \<noteq> ''Missing meta description''"
  "title_too_long n \<noteq> meta_too_short k" "title_too_long n \<noteq> meta_too_long k"
  "title_too_long n \<noteq> ''Missing H1 tag''" "title_too_long n \<noteq> multiple_h1 k"
  "title_too_long n \<noteq> low_word_count k"
  "title_too_short n \<noteq> ''Missing title tag''" "title_too_long n \<noteq> ''Missing title tag''"
  "title_too_short n \<noteq> title_too_long k"
  by (simp_all add: title_too_short_def title_too_long_def meta_too_short_def
      meta_too_long_def multiple_h1_def low_word_count_def)

lemma meta_msg_distinct:
  "meta_too_short n \<noteq> ''Missing title tag''"
  "meta_too_short n \<noteq> ''Missing meta description''"
  "meta_too_short n \<noteq> meta_too_long k"
  "meta_too_short n \<noteq> ''Missing H1 tag''" "meta_too_short n \<noteq> multiple_h1 k"
  "meta_too_short n \<noteq> low_word_count k"
  by (simp_all add: meta_too_short_def meta_too_long_def multiple_h1_def low_word_count_def)

lemma title_msg_in_issues:
  "title_too_short n \<in> set (fst (generate_seo_issues pd))
     \<Longrightarrow> title_too_short n \<in> set (title_issues pd)"
  "title_too_long n \<in> set (fst (generate_seo_issues pd))
     \<Longrightarrow> title_too_long n \<in> set (title_issues pd)"
  by (auto simp: generate_seo_issues_def meta_issues_def heading_issues_def image_issues_def
      content_issues_def missing_alt_distinct [symmetric] title_msg_distinct split: if_splits)

lemma meta_msg_in_issues:
  "meta_too_short n \<in> set (fst (generate_seo_issues pd))
     \<Longrightarrow> meta_too_short n \<in> set (meta_issues pd)"
  by (auto simp: generate_seo_issues_def title_issues_def heading_issues_def image_issues_def
      content_issues_def missing_alt_distinct [symmetric] title_msg_distinct [symmetric]
      meta_msg_distinct split: if_splits)

lemma analyze_soup_Inr:
  assumes "analyze_soup page_url soup = Inr pd"
  shows "title pd = find_title soup"
    and "title_length pd = (case find_title soup of Some t \<Rightarrow> length t | None \<Rightarrow> 0)"
    and "find_meta_description soup \<noteq> Some None"
    and "meta_description pd = (case find_meta_description soup of Some c \<Rightarrow> c | None \<Rightarrow> None)"
    and "meta_desc_length pd
           = (case find_meta_description soup of Some (Some c) \<Rightarrow> length c | _ \<Rightarrow> 0)"
    and "h1 (headings pd) = map strip (find_all_h1 soup)"
    and "map has_alt (images pd) = map (\<lambda>img. truthy (alt_attr img)) (find_all_img soup)"
    and "total_images pd = length (find_all_img soup)"
    and "images_without_alt pd = length (filter (\<lambda>img. \<not> has_alt img) (images pd))"
    and "images_without_alt pd
           = length (filter (\<lambda>img. \<not> truthy (alt_attr img)) (find_all_img soup))"
    and "word_count pd = length (split_ws (text_outside_script_style soup))"
  using assms
  by (auto simp: analyze_soup_def Let_def get_text_def decompose_script_style_def comp_def
      split: option.splits)

lemma analyze_soup_succeeds:
  "find_meta_description soup \<noteq> Some None \<Longrightarrow> \<exists>pd. analyze_soup page_url soup = Inr pd"
  by (auto simp: analyze_soup_def Let_def split: option.splits)


lemma truthy_iff: "truthy x \<longleftrightarrow> x \<noteq> None \<and> x \<noteq> Some []"
  by (cases x) auto

lemma in_issues:
  "x \<in> set (title_issues pd) \<Longrightarrow> x \<in> set (fst (generate_seo_issues pd))"
  "x \<in> set (meta_issues pd) \<Longrightarrow> x \<in> set (fst (generate_seo_issues pd))"
  "x \<in> set (image_issues pd) \<Longrightarrow> x \<in> set (fst (generate_seo_issues pd))"
  by (simp_all add: generate_seo_issues_def)

text \<open>
  C4, as amended: for every analyzed page, when the markup has no \<open>title\<close> element the
  title is absent, \<open>title_length\<close> is 0 and "Missing title tag" is among the issues; when
  the title has 30 to 60 characters, no title-length issue is reported; when it has 1 to
  29 characters, the too-short issue is reported with that length in the message; when it
  has more than 60, the too-long issue is reported with that length.
\<close>

theorem title_checks:
  assumes "analyze_soup page_url soup = Inr pd"
  shows "(find_title soup = None \<longrightarrow>
            title pd = None \<and> title_length pd = 0
            \<and> ''Missing title tag'' \<in> set (fst (generate_seo_issues pd)))
       \<and> (find_title soup = Some t \<and> 30 \<le> length t \<and> length t \<le> 60 \<longrightarrow>
            title_too_short n \<notin> set (fst (generate_seo_issues pd))
            \<and> title_too_long n \<notin> set (fst (generate_seo_issues pd)))
       \<and> (find_title soup = Some t \<and> 0 < length t \<and> length t < 30 \<longrightarrow>
            title_too_short (length t) \<in> set (fst (generate_seo_issues pd)))
       \<and> (find_title soup = Some t \<and> 60 < length t \<longrightarrow>
            title_too_long (length t) \<in> set (fst (generate_seo_issues pd)))"
proof -
  note pd = analyze_soup_Inr(1,2) [OF assms]
  have "find_title soup = None \<longrightarrow>
          title pd = None \<and> title_length pd = 0
          \<and> ''Missing title tag'' \<in> set (fst (generate_seo_issues pd))"
    by (auto simp: pd title_issues_def intro!: in_issues(1))
  moreover have "find_title soup = Some t \<and> 30 \<le> length t \<and> length t \<le> 60 \<longrightarrow>
          title_too_short n \<notin> set (fst (generate_seo_issues pd))
          \<and> title_too_long n \<notin> set (fst (generate_seo_issues pd))"
    by (auto simp: pd title_issues_def dest!: title_msg_in_issues split: if_splits)
  moreover have "find_title soup = Some t \<and> 0 < length t \<and> length t < 30 \<longrightarrow>
          title_too_short (length t) \<in> set (fst (generate_seo_issues pd))"
    by (auto simp: pd title_issues_def intro!: in_issues(1))
  moreover have "find_title soup = Some t \<and> 60 < length t \<longrightarrow>
          title_too_long (length t) \<in> set (fst (generate_seo_issues pd))"
    by (auto simp: pd title_issues_def intro!: in_issues(1))
  ultimately show ?thesis by blast
qed

text \<open>
  C10: for every analyzed page, a \<open>title\<close> element whose text is empty gives the issue
  "Missing title tag" and no too-short issue for the title, and a description tag whose
  \<open>content\<close> attribute is empty gives "Missing meta description" and no too-short issue
  for the description.
\<close>

theorem empty_strings_count_as_missing:
  assumes "analyze_soup page_url soup = Inr pd"
  shows "(find_title soup = Some [] \<longrightarrow>
            ''Missing title tag'' \<in> set (fst (generate_seo_issues pd))
            \<and> title_too_short n \<notin> set (fst (generate_seo_issues pd)))
       \<and> (find_meta_description soup = Some (Some []) \<longrightarrow>
            ''Missing meta description'' \<in> set (fst (generate_seo_issues pd))
            \<and> meta_too_short n \<notin> set (fst (generate_seo_issues pd)))"
proof -
  note pd = analyze_soup_Inr(1,2,4,5) [OF assms]
  have "find_title soup = Some [] \<longrightarrow>
          ''Missing title tag'' \<in> set (fst (generate_seo_issues pd))
          \<and> title_too_short n \<notin> set (fst (generate_seo_issues pd))"
    by (auto simp: pd title_issues_def title_msg_distinct intro!: in_issues(1)
        dest!: title_msg_in_issues)
  moreover have "find_meta_description soup = Some (Some []) \<longrightarrow>
          ''Missing meta description'' \<in> set (fst (generate_seo_issues pd))
          \<and> meta_too_short n \<notin> set (fst (generate_seo_issues pd))"
    by (auto simp: pd meta_issues_def meta_msg_distinct intro!: in_issues(2)
        dest!: meta_msg_in_issues)
  ultimately show ?thesis by blast
qed

text \<open>
  C5: for every analyzed page, \<open>images_without_alt\<close> plus the number of images with
  \<open>has_alt\<close> is \<open>total_images\<close>; \<open>has_alt\<close> holds exactly for the images whose \<open>alt\<close>
  attribute is present and not empty; with \<open>N\<close> images of which \<open>K\<close> have such an
  attribute, \<open>total_images\<close> is \<open>N\<close> and \<open>images_without_alt\<close> is \<open>N - K\<close>, and when that
  is positive the alt-text issue is reported with that number.
\<close>

theorem image_alt_counts:
  assumes "analyze_soup page_url soup = Inr pd"
  shows "images_without_alt pd + length (filter has_alt (images pd)) = total_images pd
       \<and> map has_alt (images pd)
           = map (\<lambda>img. alt_attr img \<noteq> None \<and> alt_attr img \<noteq> Some []) (find_all_img soup)
       \<and> total_images pd = length (find_all_img soup)
       \<and> images_without_alt pd
           = length (find_all_img soup)
             - length (filter (\<lambda>img. alt_attr img \<noteq> None \<and> alt_attr img \<noteq> Some [])
                 (find_all_img soup))
       \<and> (0 < images_without_alt pd \<longrightarrow>
            missing_alt (images_without_alt pd) \<in> set (fst (generate_seo_issues pd)))"
proof -
  note pd = analyze_soup_Inr [OF assms]
  have len: "length (filter (\<lambda>x. \<not> P x) xs) + length (filter P xs) = length xs"
    for P :: "'a \<Rightarrow> bool" and xs
    by (induction xs) auto
  have "images_without_alt pd + length (filter has_alt (images pd)) = length (images pd)"
    unfolding pd(9) by (rule len)
  moreover have "length (images pd) = total_images pd"
    using pd(7,8) by (metis length_map)
  moreover have "map has_alt (images pd)
      = map (\<lambda>img. alt_attr img \<noteq> None \<and> alt_attr img \<noteq> Some []) (find_all_img soup)"
    unfolding pd(7) by (simp add: truthy_iff)
  moreover have "images_without_alt pd
      = length (find_all_img soup)
        - length (filter (\<lambda>img. alt_attr img \<noteq> None \<and> alt_attr img \<noteq> Some [])
            (find_all_img soup))"
    using len [of "\<lambda>img. alt_attr img \<noteq> None \<and> alt_attr img \<noteq> Some []" "find_all_img soup"]
    unfolding pd(10) by (simp add: truthy_iff)
  moreover have "0 < images_without_alt pd \<longrightarrow>
      missing_alt (images_without_alt pd) \<in> set (fst (generate_seo_issues pd))"
    by (auto simp: image_issues_def intro!: in_issues(3))
  ultimately show ?thesis using pd(8) by simp
qed

text \<open>
  C3: a page with the title "Home | IT Support Wichita", no description tag, one H1, two
  images of which one has no alt text, 250 words and no JSON-LD block is analyzed
  without error; its issues are the short title (with the length of the title, 25), the
  missing description, the alt text of 1 image and the low word count of 250, and its
  score is 60.
\<close>

theorem end_to_end_example:
  assumes "find_title soup = Some ''Home | IT Support Wichita''"
    and "find_meta_description soup = None"
    and "length (find_all_h1 soup) = 1"
    and "length (find_all_img soup) = 2"
    and "length (filter (\<lambda>img. alt_attr img = None \<or> alt_attr img = Some [])
           (find_all_img soup)) = 1"
    and "length (split_ws (text_outside_script_style soup)) = 250"
    and "find_all_script ''application/ld+json'' soup = []"
  shows "\<exists>pd. analyze_soup page_url soup = Inr pd
       \<and> issues (snd (generate_report pd))
           = [''Title too short (25 chars). Aim for 30-60 characters'',
              ''Missing meta description'',
              ''1 images missing alt text'',
              ''Low word count (250). Aim for at least 300 words'']
       \<and> score (snd (generate_report pd)) = 60"
proof -
  from assms(2) obtain pd where ok: "analyze_soup page_url soup = Inr pd"
    using analyze_soup_succeeds [of soup page_url] by auto
  note pd = analyze_soup_Inr [OF ok]
  have t: "truthy (title pd)" "title_length pd = 25"
    by (simp_all add: pd assms(1))
  have m: "\<not> truthy (meta_description pd)"
    by (simp add: pd assms(2))
  have h: "length (h1 (headings pd)) = 1"
    by (simp add: pd assms(3))
  have i: "images_without_alt pd = 1"
    by (simp add: pd(10) truthy_iff assms(5))
  have w: "word_count pd = 250"
    by (simp add: pd assms(6))
  have "fst (generate_seo_issues pd)
      = [''Title too short (25 chars). Aim for 30-60 characters'',
         ''Missing meta description'',
         ''1 images missing alt text'',
         ''Low word count (250). Aim for at least 300 words'']"
    using h
    by (cases "h1 (headings pd)")
      (simp_all add: generate_seo_issues_def title_issues_def meta_issues_def heading_issues_def
        image_issues_def content_issues_def t m i w title_too_short_def missing_alt_def
        low_word_count_def str_nat.simps digit_char_def)
  then show ?thesis
    using ok by (simp add: generate_report_issues generate_report_score seo_score_def)
qed


lemma small_soup_succeeds:
  "\<exists>pd. analyze_soup page_url (small_soup\<lparr>find_title := t\<rparr>) = Inr pd"
  by (rule analyze_soup_succeeds) (simp add: small_soup_def)

text \<open>The four cases of C4 at a missing title and at titles of 30, 29 and 61 characters.\<close>

theorem title_checks_witness:
  "(\<exists>pd. analyze_soup ''https://example.com'' (small_soup\<lparr>find_title := None\<rparr>) = Inr pd
      \<and> title pd = None \<and> title_length pd = 0
      \<and> ''Missing title tag'' \<in> set (fst (generate_seo_issues pd)))
   \<and> (\<exists>pd. analyze_soup ''https://example.com''
             (small_soup\<lparr>find_title := Some (replicate 30 CHR ''x'')\<rparr>) = Inr pd
      \<and> title_too_short 30 \<notin> set (fst (generate_seo_issues pd))
      \<and> title_too_long 30 \<notin> set (fst (generate_seo_issues pd)))
   \<and> (\<exists>pd. analyze_soup ''https://example.com''
             (small_soup\<lparr>find_title := Some (replicate 29 CHR ''x'')\<rparr>) = Inr pd
      \<and> title_too_short 29 \<in> set (fst (generate_seo_issues pd)))
   \<and> (\<exists>pd. analyze_soup ''https://example.com''
             (small_soup\<lparr>find_title := Some (replicate 61 CHR ''x'')\<rparr>) = Inr pd
      \<and> title_too_long 61 \<in> set (fst (generate_seo_issues pd)))"
proof -
  obtain p1 where p1: "analyze_soup ''https://example.com'' (small_soup\<lparr>find_title := None\<rparr>) = Inr p1"
    using small_soup_succeeds by blast
  obtain p2 where p2: "analyze_soup ''https://example.com''
      (small_soup\<lparr>find_title := Some (replicate 30 CHR ''x'')\<rparr>) = Inr p2"
    using small_soup_succeeds by blast
  obtain p3 where p3: "analyze_soup ''https://example.com''
      (small_soup\<lparr>find_title := Some (replicate 29 CHR ''x'')\<rparr>) = Inr p3"
    using small_soup_succeeds by blast
  obtain p4 where p4: "analyze_soup ''https://example.com''
      (small_soup\<lparr>find_title := Some (replicate 61 CHR ''x'')\<rparr>) = Inr p4"
    using small_soup_succeeds by blast
  show ?thesis
    using title_checks [OF p1] title_checks [OF p2, of "replicate 30 CHR ''x''" 30]
      title_checks [OF p3, of "replicate 29 CHR ''x''"]
      title_checks [OF p4, of "replicate 61 CHR ''x''"]
    by (simp add: p1 p2 p3 p4)
qed

text \<open>
  C4 as stated fails for a title of length 0: a \<open>title\<close> element with an empty text is
  present and shorter than 30 characters, and the too-short issue is not reported.
\<close>

theorem short_title_counterexample:
  "find_title empty_title_soup = Some []
   \<and> length ([] :: string) < 30
   \<and> soup_issues ''https://example.com'' empty_title_soup
       = Inr [''Missing title tag'', ''Missing meta description'',
              ''2 images missing alt text'', ''Low word count (2). Aim for at least 300 words'']
   \<and> title_too_short (length ([] :: string))
       \<notin> set [''Missing title tag'', ''Missing meta description'',
              ''2 images missing alt text'', ''Low word count (2). Aim for at least 300 words'']"
proof -
  obtain pd where ok: "analyze_soup ''https://example.com'' empty_title_soup = Inr pd"
    using analyze_soup_succeeds [of empty_title_soup] by (auto simp: empty_title_soup_def)
  note pd = analyze_soup_Inr [OF ok]
  have "split_ws ''IT support'' = [''IT'', ''support'']"
    by (simp add: is_space_def code_def)
  then have w: "word_count pd = 2"
    by (simp add: pd empty_title_soup_def small_soup_def)
  have "fst (generate_seo_issues pd)
      = [''Missing title tag'', ''Missing meta description'',
         ''2 images missing alt text'', ''Low word count (2). Aim for at least 300 words'']"
    by (simp add: generate_seo_issues_def title_issues_def meta_issues_def heading_issues_def
        image_issues_def content_issues_def pd(1,2,4,5,6,10) w empty_title_soup_def
        small_soup_def missing_alt_def low_word_count_def str_nat.simps digit_char_def)
  then have "soup_issues ''https://example.com'' empty_title_soup
      = Inr [''Missing title tag'', ''Missing meta description'',
         ''2 images missing alt text'', ''Low word count (2). Aim for at least 300 words'']"
    by (simp add: soup_issues_def ok)
  moreover have "find_title empty_title_soup = Some []"
    by (simp add: empty_title_soup_def)
  ultimately show ?thesis
    by (simp add: title_too_short_def)
qed

text \<open>C10 at a page with an empty title and an empty description.\<close>

theorem empty_strings_count_as_missing_witness:
  "find_title empty_title_soup = Some []
   \<and> find_meta_description empty_title_soup = Some (Some [])
   \<and> (\<exists>pd. analyze_soup ''https://example.com'' empty_title_soup = Inr pd
        \<and> ''Missing title tag'' \<in> set (fst (generate_seo_issues pd))
        \<and> title_too_short 0 \<notin> set (fst (generate_seo_issues pd))
        \<and> ''Missing meta description'' \<in> set (fst (generate_seo_issues pd))
        \<and> meta_too_short 0 \<notin> set (fst (generate_seo_issues pd)))"
proof -
  have e: "find_title empty_title_soup = Some []"
    "find_meta_description empty_title_soup = Some (Some [])"
    by (simp_all add: empty_title_soup_def)
  then obtain pd where pd: "analyze_soup ''https://example.com'' empty_title_soup = Inr pd"
    using analyze_soup_succeeds [of empty_title_soup] by auto
  show ?thesis
    using empty_strings_count_as_missing [OF pd, of 0] e by (simp add: pd)
qed

text \<open>C5 at a page with three images, one of them with a non-empty \<open>alt\<close>.\<close>

theorem image_alt_counts_witness:
  "\<exists>pd. analyze_soup ''https://example.com'' small_soup = Inr pd
     \<and> total_images pd = 3 \<and> images_without_alt pd = 2
     \<and> length (filter has_alt (images pd)) = 1
     \<and> ''2 images missing alt text'' \<in> set (fst (generate_seo_issues pd))"
proof -
  obtain pd where pd: "analyze_soup ''https://example.com'' small_soup = Inr pd"
    using analyze_soup_succeeds [of small_soup] by (auto simp: small_soup_def)
  have imgs: "find_all_img small_soup
      = [\<lparr>src_attr = Some ''a.png'', alt_attr = Some ''logo''\<rparr>,
         \<lparr>src_attr = Some ''b.png'', alt_attr = Some []\<rparr>,
         \<lparr>src_attr = None, alt_attr = None\<rparr>]"
    by (simp add: small_soup_def)
  have msg: "missing_alt 2 = ''2 images missing alt text''"
    by (simp add: missing_alt_def str_nat.simps digit_char_def)
  have "total_images pd = 3 \<and> images_without_alt pd = 2
     \<and> length (filter has_alt (images pd)) = 1
     \<and> ''2 images missing alt text'' \<in> set (fst (generate_seo_issues pd))"
    using image_alt_counts [OF pd] unfolding imgs by (auto simp: msg [symmetric] numeral_2_eq_2)
  with pd show ?thesis by blast
qed

lemma split_ws_replicate:
  "\<not> is_space c \<Longrightarrow> split_ws (concat (replicate n [c, c, c, c, CHR '' ''])) = replicate n [c, c, c, c]"
  by (induction n) (auto simp: is_space_def code_def)

text \<open>C3 at a page of that kind.\<close>

theorem end_to_end_example_witness:
  "find_title example_soup = Some ''Home | IT Support Wichita''
   \<and> find_meta_description example_soup = None
   \<and> length (find_all_h1 example_soup) = 1
   \<and> length (find_all_img example_soup) = 2
   \<and> length (filter (\<lambda>img. alt_attr img = None \<or> alt_attr img = Some [])
        (find_all_img example_soup)) = 1
   \<and> length (split_ws (text_outside_script_style example_soup)) = 250
   \<and> find_all_script ''application/ld+json'' example_soup = []
   \<and> (\<exists>pd. analyze_soup ''https://example.com'' example_soup = Inr pd
        \<and> length (issues (snd (generate_report pd))) = 4
        \<and> score (snd (generate_report pd)) = 60)"
proof -
  have w: "length (split_ws (text_outside_script_style example_soup)) = 250"
    using split_ws_replicate [of "CHR ''w''" 250]
    by (simp add: example_soup_def is_space_def code_def)
  have h: "find_title example_soup = Some ''Home | IT Support Wichita''"
    "find_meta_description example_soup = None"
    "length (find_all_h1 example_soup) = 1"
    "length (find_all_img example_soup) = 2"
    "length (filter (\<lambda>img. alt_attr img = None \<or> alt_attr img = Some [])
        (find_all_img example_soup)) = 1"
    "find_all_script ''application/ld+json'' example_soup = []"
    by (simp_all add: example_soup_def find_all_script_def)
  show ?thesis
    using end_to_end_example [OF h(1-5) w h(6), of "''https://example.com''"] h w
    by auto
qed

section \<open>Properties of a run\<close>

lemma main_run:
  assumes "length (argv e) = 2" and "\<not> urlparse_raises e (argv e ! 1)"
    and "analyze_page e (argv e ! 1) = (out, res)"
  shows "main e w =
     (case res of
        Inl err \<Rightarrow>
          (Uncaught err,
           print out (print [''Analyzing website: '' @ argv e ! 1, ''Please wait...''] w))
      | Inr None \<Rightarrow>
          (Returned,
           print [''Failed to analyze the website. Check the URL and try again.'']
             (print out (print [''Analyzing website: '' @ argv e ! 1, ''Please wait...''] w)))
      | Inr (Some pd) \<Rightarrow>
          (Returned,
           print [CHR 0x0A # ''Detailed results saved to: seo_analysis.json'']
             (write_file ''seo_analysis.json''
                (dump (artifact (sys_version e) pd (snd (generate_report pd))))
                (print (fst (generate_report pd))
                   (print out
                      (print [''Analyzing website: '' @ argv e ! 1, ''Please wait...''] w))))))"
  using assms by (simp add: main_def Let_def split: sum.splits option.splits prod.splits)

lemma files_print [simp]: "files (print ls w) = files w"
  by (simp add: print_def)

lemma stdout_print [simp]: "stdout (print ls w) = stdout w @ ls"
  by (simp add: print_def)

lemma files_write_file [simp]: "files (write_file name doc w) = (files w)(name \<mapsto> doc)"
  by (simp add: write_file_def)

lemma stdout_write_file [simp]: "stdout (write_file name doc w) = stdout w"
  by (simp add: write_file_def)

lemma fetch_page_fails:
  assumes "(\<exists>msg. res = Raised msg)
         \<or> (\<exists>r. res = Responded r \<and> 400 \<le> status_code r \<and> status_code r < 600)"
  shows "\<exists>msg. fetch_page page_url res = ([''Error fetching '' @ page_url @ '': '' @ msg], None)"
  using assms by (auto simp: fetch_page_def raise_for_status_def)

lemma fetch_page_out:
  "fst (fetch_page page_url res) = []
   \<or> (\<exists>msg. fst (fetch_page page_url res) = [''Error fetching '' @ page_url @ '': '' @ msg])"
  by (auto simp: fetch_page_def split: get_result.splits option.splits)

lemma analyze_page_out:
  "analyze_page e page_url = (out, res) \<Longrightarrow> out = fst (fetch_page page_url (requests_get e page_url))"
  by (auto simp: analyze_page_def Let_def split: prod.splits option.splits if_splits)

lemma ruler_neq [simp]:
  "ruler \<noteq> CHR ''A'' # s" "ruler \<noteq> CHR ''P'' # s" "ruler \<noteq> CHR ''E'' # s"
  "ruler \<noteq> CHR ''F'' # s" "ruler \<noteq> CHR ''U'' # s"
  by (simp_all add: ruler_def numeral_eq_Suc)


lemma analyze_page_fetch_fails:
  assumes "fetch_page page_url (requests_get e page_url) = (out, None)"
  shows "analyze_page e page_url = (out, Inr None)"
  using assms by (simp add: analyze_page_def)

text \<open>
  C6, as amended: when the fetch fails, that is when \<open>requests.get\<close> raises (transport
  error, timeout) or the response has a status from 400 to 599, the program prints the
  error, prints that the analysis failed, returns, and leaves every file as it was. And
  every run either prints the whole report and writes the artifact, or writes no file
  and prints no line of the report.
\<close>

theorem fetch_failure_writes_nothing:
  "(argv e = [prog, page_url] \<and> \<not> urlparse_raises e page_url
      \<and> ((\<exists>msg. requests_get e page_url = Raised msg)
         \<or> (\<exists>r. requests_get e page_url = Responded r
                \<and> 400 \<le> status_code r \<and> status_code r < 600))
    \<longrightarrow> (\<exists>msg. main e w =
           (Returned,
            w\<lparr>stdout := stdout w @
                [''Analyzing website: '' @ page_url, ''Please wait...'',
                 ''Error fetching '' @ page_url @ '': '' @ msg,
                 ''Failed to analyze the website. Check the URL and try again.'']\<rparr>)))
   \<and> ((\<exists>out pd. analyze_page e (argv e ! 1) = (out, Inr (Some pd))
          \<and> fst (main e w) = Returned
          \<and> stdout (snd (main e w))
              = stdout w @ [''Analyzing website: '' @ argv e ! 1, ''Please wait...'']
                  @ fst (generate_report pd)
                  @ [CHR 0x0A # ''Detailed results saved to: seo_analysis.json'']
          \<and> files (snd (main e w))
              = (files w)(''seo_analysis.json'' \<mapsto>
                   dump (artifact (sys_version e) pd (snd (generate_report pd)))))
      \<or> (files (snd (main e w)) = files w
          \<and> (\<exists>ls. stdout (snd (main e w)) = stdout w @ ls \<and> ruler \<notin> set ls)))"
proof -
  have fail: "\<exists>msg. main e w =
      (Returned,
       w\<lparr>stdout := stdout w @
           [''Analyzing website: '' @ page_url, ''Please wait...'',
            ''Error fetching '' @ page_url @ '': '' @ msg,
            ''Failed to analyze the website. Check the URL and try again.'']\<rparr>)"
    if a: "argv e = [prog, page_url]" and u: "\<not> urlparse_raises e page_url"
      and f: "(\<exists>msg. requests_get e page_url = Raised msg)
         \<or> (\<exists>r. requests_get e page_url = Responded r
                \<and> 400 \<le> status_code r \<and> status_code r < 600)"
  proof -
    from fetch_page_fails [OF f] obtain msg where
      "fetch_page page_url (requests_get e page_url)
         = ([''Error fetching '' @ page_url @ '': '' @ msg], None)"
      by blast
    then have "analyze_page e (argv e ! 1)
        = ([''Error fetching '' @ page_url @ '': '' @ msg], Inr None)"
      using a by (simp add: analyze_page_fetch_fails)
    from main_run [OF _ _ this, of w] a u
    have "main e w =
      (Returned,
       w\<lparr>stdout := stdout w @
           [''Analyzing website: '' @ page_url, ''Please wait...'',
            ''Error fetching '' @ page_url @ '': '' @ msg,
            ''Failed to analyze the website. Check the URL and try again.'']\<rparr>)"
      by (simp add: print_def)
    then show ?thesis by blast
  qed
  have dich: "(\<exists>out pd. analyze_page e (argv e ! 1) = (out, Inr (Some pd))
          \<and> fst (main e w) = Returned
          \<and> stdout (snd (main e w))
              = stdout w @ [''Analyzing website: '' @ argv e ! 1, ''Please wait...'']
                  @ fst (generate_report pd)
                  @ [CHR 0x0A # ''Detailed results saved to: seo_analysis.json'']
          \<and> files (snd (main e w))
              = (files w)(''seo_analysis.json'' \<mapsto>
                   dump (artifact (sys_version e) pd (snd (generate_report pd)))))
      \<or> (files (snd (main e w)) = files w
          \<and> (\<exists>ls. stdout (snd (main e w)) = stdout w @ ls \<and> ruler \<notin> set ls))"
  proof (cases "length (argv e) = 2 \<and> \<not> urlparse_raises e (argv e ! 1)")
    case False
    then have "files (snd (main e w)) = files w
        \<and> (stdout (snd (main e w)) = stdout w @ []
           \<or> stdout (snd (main e w)) = stdout w @
               [''Usage: python3 seo_analyzer.py <website_url>'',
                ''Example: python3 seo_analyzer.py https://wichitacomputersolutions.com''])"
      by (auto simp: main_def Let_def)
    then have "files (snd (main e w)) = files w
        \<and> (\<exists>ls. stdout (snd (main e w)) = stdout w @ ls \<and> ruler \<notin> set ls)"
      by (elim conjE disjE) (rule conjI, assumption, rule exI, rule conjI, assumption, simp)+
    then show ?thesis by blast
  next
    case True
    obtain out res where ap: "analyze_page e (argv e ! 1) = (out, res)"
      by (cases "analyze_page e (argv e ! 1)")
    note run = main_run [OF conjunct1 [OF True] conjunct2 [OF True] ap, of w]
    from analyze_page_out [OF ap] fetch_page_out [of "argv e ! 1" "requests_get e (argv e ! 1)"]
    have out: "ruler \<notin> set out" by auto
    show ?thesis
    proof (cases res)
      case (Inl err)
      with run out have "files (snd (main e w)) = files w
          \<and> stdout (snd (main e w))
              = stdout w @ ([''Analyzing website: '' @ argv e ! 1, ''Please wait...''] @ out)
          \<and> ruler \<notin> set ([''Analyzing website: '' @ argv e ! 1, ''Please wait...''] @ out)"
        by simp
      then show ?thesis by blast
    next
      case (Inr r)
      show ?thesis
      proof (cases r)
        case None
        with Inr run out have "files (snd (main e w)) = files w
            \<and> stdout (snd (main e w))
                = stdout w @ ([''Analyzing website: '' @ argv e ! 1, ''Please wait...''] @ out
                    @ [''Failed to analyze the website. Check the URL and try again.''])
            \<and> ruler \<notin> set ([''Analyzing website: '' @ argv e ! 1, ''Please wait...''] @ out
                    @ [''Failed to analyze the website. Check the URL and try again.''])"
          by simp
        then show ?thesis by blast
      next
        case (Some pd)
        have "out = []"
          using ap Inr Some
          by (auto simp: analyze_page_def fetch_page_def Let_def
              split: prod.splits option.splits if_splits get_result.splits)
        with Some Inr run ap show ?thesis by simp
      qed
    qed
  qed
  from fail dich show ?thesis by blast
qed


text \<open>C6 at a timeout and at a response with status 404.\<close>

theorem fetch_failure_writes_nothing_witness:
  "argv timeout_env = [''seo_analyzer.py'', ''https://example.com'']
   \<and> \<not> urlparse_raises timeout_env ''https://example.com''
   \<and> requests_get timeout_env ''https://example.com'' = Raised ''Read timed out.''
   \<and> (\<exists>msg. main timeout_env empty_world =
         (Returned,
          \<lparr>stdout = [''Analyzing website: https://example.com'', ''Please wait...'',
                     ''Error fetching https://example.com: '' @ msg,
                     ''Failed to analyze the website. Check the URL and try again.''],
           files = Map.empty\<rparr>))
   \<and> requests_get not_found_env ''https://example.com''
       = Responded \<lparr>status_code = 404, reason = ''Not Found'',
           response_url = ''https://example.com/'', response_text = ''<html>not here</html>''\<rparr>
   \<and> (\<exists>msg. main not_found_env empty_world =
         (Returned,
          \<lparr>stdout = [''Analyzing website: https://example.com'', ''Please wait...'',
                     ''Error fetching https://example.com: '' @ msg,
                     ''Failed to analyze the website. Check the URL and try again.''],
           files = Map.empty\<rparr>))"
  using
    fetch_failure_writes_nothing [of timeout_env "''seo_analyzer.py''" "''https://example.com''"
      empty_world]
    fetch_failure_writes_nothing [of not_found_env "''seo_analyzer.py''"
      "''https://example.com''" empty_world]
  by (simp add: timeout_env_def not_found_env_def example_env_def empty_world_def)

text \<open>
  C6 as stated fails for a status that is not 2xx and not an error for
  \<open>raise_for_status\<close>: a response with status 300 and a body is analyzed, and the
  artifact is written.
\<close>

theorem non_2xx_status_counterexample:
  "requests_get multiple_choices_env ''https://example.com''
     = Responded \<lparr>status_code = 300, reason = ''Multiple Choices'',
         response_url = ''https://example.com/'',
         response_text = ''<html><a href=a.html>a</a></html>''\<rparr>
   \<and> \<not> (200 \<le> (300 :: nat) \<and> (300 :: nat) < 300)
   \<and> files empty_world ''seo_analysis.json'' = None
   \<and> fst (main multiple_choices_env empty_world) = Returned
   \<and> files (snd (main multiple_choices_env empty_world)) ''seo_analysis.json'' \<noteq> None"
proof -
  obtain pd where "analyze_soup ''https://example.com'' small_soup = Inr pd"
    using analyze_soup_succeeds [of small_soup] by (auto simp: small_soup_def)
  then have "analyze_page multiple_choices_env (argv multiple_choices_env ! 1)
      = ([], Inr (Some pd))"
    by (simp add: analyze_page_def fetch_page_def raise_for_status_def multiple_choices_env_def
        example_env_def)
  from main_run [OF _ _ this, of empty_world] show ?thesis
    by (simp add: multiple_choices_env_def example_env_def empty_world_def)
qed

text \<open>
  C7: on every successful run the file \<open>seo_analysis.json\<close> holds an object with the three
  entries \<open>analysis_date\<close>, \<open>page_data\<close> (the whole page analysis) and \<open>report\<close> (the
  report). The entry \<open>analysis_date\<close> is the version string of the interpreter, not a
  time.
\<close>

theorem artifact_contents:
  assumes "length (argv e) = 2" and "\<not> urlparse_raises e (argv e ! 1)"
    and "analyze_page e (argv e ! 1) = (out, Inr (Some pd))"
  shows "fst (main e w) = Returned
       \<and> files (snd (main e w))
           = (files w)(''seo_analysis.json'' \<mapsto>
                JObj [(''analysis_date'', JStr (sys_version e)),
                      (''page_data'', dump (py_page_data pd)),
                      (''report'', dump (py_report (snd (generate_report pd))))])"
  using main_run [OF assms, of w] by (simp add: artifact_def)

text \<open>C7 at a run that succeeds.\<close>

theorem artifact_contents_witness:
  "length (argv example_env) = 2
   \<and> \<not> urlparse_raises example_env (argv example_env ! 1)
   \<and> (\<exists>pd. analyze_page example_env (argv example_env ! 1) = ([], Inr (Some pd))
        \<and> fst (main example_env empty_world) = Returned
        \<and> files (snd (main example_env empty_world)) ''seo_analysis.json''
            = Some (JObj
                [(''analysis_date'', JStr ''3.11.4 (main, Jun  7 2023, 10:13:09) [GCC 12.2.0]''),
                 (''page_data'', dump (py_page_data pd)),
                 (''report'', dump (py_report (snd (generate_report pd))))]))"
proof -
  obtain pd where "analyze_soup ''https://example.com'' small_soup = Inr pd"
    using analyze_soup_succeeds [of small_soup] by (auto simp: small_soup_def)
  then have ap: "analyze_page example_env (argv example_env ! 1) = ([], Inr (Some pd))"
    by (simp add: analyze_page_def fetch_page_def raise_for_status_def example_env_def)
  have a: "length (argv example_env) = 2" "\<not> urlparse_raises example_env (argv example_env ! 1)"
    by (simp_all add: example_env_def)
  have "sys_version example_env = ''3.11.4 (main, Jun  7 2023, 10:13:09) [GCC 12.2.0]''"
    by (simp add: example_env_def)
  with artifact_contents [OF a ap, of empty_world] a ap show ?thesis
    by auto
qed

section \<open>Properties of the artifact\<close>


lemma load_dump_py_opt [simp]: "load (dump (py_opt x)) = py_opt x"
  by (cases x) simp_all

lemma load_dump_py_strs [simp]: "load (dump (py_strs xs)) = py_strs xs"
  by (simp add: py_strs_def comp_def)

lemma load_dump_py_image [simp]: "load (dump (py_image img)) = py_image img"
  by (simp add: py_image_def)

lemma load_dump_py_keyword [simp]: "load (dump (py_keyword kw)) = listed_keyword kw"
  by (simp add: py_keyword_def listed_keyword_def)







section \<open>Properties of the keyword extraction\<close>
































end
